theory Spec2Isabelle
  imports Complex_Main "HOL-Library.Sublist"
begin

section \<open>JavaScript values and string operations\<close>

text \<open>
  A JavaScript value that is a string, \<^verbatim>\<open>undefined\<close> or \<^verbatim>\<open>null\<close> is a
  \<open>string option\<close>: \<open>None\<close> stands for \<^verbatim>\<open>undefined\<close>/\<^verbatim>\<open>null\<close>. Strings are
  byte lists; every needle the program searches for is ASCII, so a search in the UTF-8
  bytes finds what the search in the UTF-16 code units finds.
\<close>

definition truthy :: "string option \<Rightarrow> bool" where
  \<comment> \<open>\<^verbatim>\<open>v && ...\<close>, \<^verbatim>\<open>v || ...\<close>: undefined, null and the empty string are falsy.\<close>
  "truthy v = (case v of None \<Rightarrow> False | Some s \<Rightarrow> s \<noteq> [])"

definition template :: "string option \<Rightarrow> string" where
  \<comment> \<open>\<^verbatim>\<open>${v}\<close> inside a template literal.\<close>
  "template v = (case v of None \<Rightarrow> ''undefined'' | Some s \<Rightarrow> s)"

definition startsWith :: "string \<Rightarrow> string \<Rightarrow> bool" where
  \<comment> \<open>\<^verbatim>\<open>s.startsWith(p)\<close>\<close>
  "startsWith s p = (take (length p) s = p)"

fun js_includes :: "string \<Rightarrow> string \<Rightarrow> bool" where
  \<comment> \<open>\<^verbatim>\<open>s.includes(t)\<close>: \<open>t\<close> occurs in \<open>s\<close> at some position, case-sensitively.\<close>
  "js_includes [] t = (t = [])"
| "js_includes (c # s) t = (startsWith (c # s) t \<or> js_includes s t)"

fun js_split :: "char \<Rightarrow> string \<Rightarrow> string list" where
  \<comment> \<open>\<^verbatim>\<open>s.split(sep)\<close> for a one-character separator: never the empty array.\<close>
  "js_split sep [] = [[]]"
| "js_split sep (c # cs) =
     (if c = sep then [] # js_split sep cs
      else (case js_split sep cs of [] \<Rightarrow> [[c]] | p # ps \<Rightarrow> (c # p) # ps))"

definition at_index :: "'a list \<Rightarrow> nat \<Rightarrow> 'a option" where
  \<comment> \<open>\<^verbatim>\<open>xs[i]\<close>: reading past the end of an array gives \<^verbatim>\<open>undefined\<close>.\<close>
  "at_index xs i = (if i < length xs then Some (xs ! i) else None)"

definition Math_round :: "real \<Rightarrow> int" where
  \<comment> \<open>\<^verbatim>\<open>Math.round(x)\<close>: the nearest integer, a tie going towards \<open>+\<infinity>\<close>.\<close>
  "Math_round x = \<lfloor>x + 1 / 2\<rfloor>"

section \<open>services/geminiService.ts\<close>

datatype StyleStrength = balanced | strong

record Blob =
  data :: "string option"
  mimeType :: string

subsection \<open>The browser, as \<^verbatim>\<open>optimizeImage\<close> uses it\<close>

text \<open>
  Assigning \<^verbatim>\<open>img.src\<close> makes the browser fire \<^verbatim>\<open>img.onload\<close> (with \<^verbatim>\<open>img.width\<close>
  and \<^verbatim>\<open>img.height\<close> set) or \<^verbatim>\<open>img.onerror\<close>. A canvas is its size and the
  \<^verbatim>\<open>drawImage(img, dx, dy, dw, dh)\<close> call made on its context, the image named by its
  \<^verbatim>\<open>src\<close>. Which of the two events fires, whether \<^verbatim>\<open>getContext('2d')\<close> returns a
  context and what \<^verbatim>\<open>toDataURL(type, quality)\<close> returns are the browser's, so they are
  fields of the environment.
\<close>

datatype load_event = onload nat nat | onerror

record canvas =
  width :: nat
  height :: nat
  drawn :: "(string \<times> nat \<times> nat \<times> nat \<times> nat) option"

record Browser =
  windowDefined :: bool
  ImageDefined :: bool
  load :: "string \<Rightarrow> load_event"
  getContext :: "canvas \<Rightarrow> bool"
  toDataURL :: "canvas \<Rightarrow> string \<Rightarrow> real \<Rightarrow> string"

definition MAX_DIMENSION :: nat where
  "MAX_DIMENSION = 1024"

text \<open>
  The new canvas size of an image that is too large (lines 32 to 38 of the source). The
  quotient is a real number here and an IEEE double in the browser; both round to the
  same integer: a quotient \<open>a / b\<close> that is not a half-integer is at least \<open>1 / (2 * b)\<close>
  away from one, which for \<open>b < 2 ^ 32\<close> (\<^verbatim>\<open>img.width\<close> is an unsigned long) is far more
  than the rounding error of the division of a value at most 1024.
\<close>

definition newDimensions :: "nat \<Rightarrow> nat \<Rightarrow> nat \<times> nat" where
  "newDimensions w h =
     (if w > h then (MAX_DIMENSION, nat (Math_round (real (h * MAX_DIMENSION) / real w)))
      else (nat (Math_round (real (w * MAX_DIMENSION) / real h)), MAX_DIMENSION))"

definition optimizeImage :: "Browser \<Rightarrow> string option \<Rightarrow> string \<Rightarrow> Blob" where
  "optimizeImage env b64 mime =
     (if \<not> windowDefined env \<or> \<not> ImageDefined env then \<lparr>data = b64, mimeType = mime\<rparr>
      else
        let src = ''data:'' @ mime @ '';base64,'' @ template b64 in
        case load env src of
          onerror \<Rightarrow> \<lparr>data = b64, mimeType = mime\<rparr>
        | onload w h \<Rightarrow>
            if w > MAX_DIMENSION \<or> h > MAX_DIMENSION then
              let (w', h') = newDimensions w h;
                  cv = \<lparr>width = w', height = h', drawn = None\<rparr>
              in if \<not> getContext env cv then \<lparr>data = b64, mimeType = mime\<rparr>
                 else
                   let cv' = cv\<lparr>drawn := Some (src, 0, 0, w', h')\<rparr>;
                       newDataUrl = toDataURL env cv' ''image/jpeg'' 0.85
                   in \<lparr>data = at_index (js_split CHR '','' newDataUrl) 1,
                       mimeType = ''image/jpeg''\<rparr>
            else \<lparr>data = b64, mimeType = mime\<rparr>)"

subsection \<open>The prompt and the request\<close>

definition prompt :: "StyleStrength \<Rightarrow> string" where
  \<open>prompt strength = concat
    [''\<newline>'',
     ''      [STYLE TRANSFER TASK]\<newline>'',
     ''      Target: Redraw the source image entirely in the art style of the animated series "Rick and Morty" (Justin Roiland style).\<newline>'',
     ''      \<newline>'',
     ''      **CRITICAL VISUAL FEATURES (MUST FOLLOW):**\<newline>'',
     ''      1.  **EYES:** Characters MUST have perfectly round white eyes with **uneven, scribbly black pupils** (looking like little asterisks or scribbles). This is the specific "Rick and Morty" signature.\<newline>'',
     ''      2.  **OUTLINES:** Use thin, consistent black vector lines. No sketchy lines, just clean ink.\<newline>'',
     ''      3.  **COLORING:** Use flat, solid colors. **ABSOLUTELY NO** gradients, soft shading, or realistic lighting. Use the show's pale/greyish skin tone palette unless the subject is dark-skinned.\<newline>'',
     ''      4.  **MOUTHS:** Use the show's signature "droopy" lips or simple line mouths.\<newline>'',
     ''      \<newline>'',
     ''      **INTENSITY LEVEL: '',
     (if strength = strong then ''MAXIMUM SCHWIFTINESS (High Stylization)''
      else ''STANDARD (Balanced)''),
     ''**\<newline>'',
     ''      \<newline>'',
     ''      '',
     (if strength = strong
      then concat
        [''**INSTRUCTION - MAXIMUM STYLE:** \<newline>'',
         ''           - **Heavily caricature** the subjects. \<newline>'',
         ''           - Distort realistic proportions to fit the cartoon's "bean-head" and "noodly limb" anatomy. \<newline>'',
         ''           - It is acceptable to sacrifice some facial likeness to achieve the perfect "Adult Swim" cartoon look. \<newline>'',
         ''           - Make the background look like a wobbly alien dimension or a clean vector sci-fi room.\<newline>'',
         ''           - The result should look like a screenshot from Season 4.'']
      else concat
        [''**INSTRUCTION - BALANCED:**\<newline>'',
         ''           - Preserve the distinct likeness, pose, and expression of the subjects.\<newline>'',
         ''           - Apply the line-art and coloring style of the show, but keep the facial proportions recognizable.\<newline>'',
         ''           - Simplify clothing details into the cartoon style.'']),
     ''\<newline>'',
     ''\<newline>'',
     ''      **Output:** Return ONLY the generated image.\<newline>'',
     ''    '']\<close>

definition temperature :: "StyleStrength \<Rightarrow> real" where
  "temperature strength = (if strength = strong then 0.75 else 0.65)"

text \<open>
  The argument of \<^verbatim>\<open>ai.models.generateContent\<close>: the model's name, the two parts of
  \<^verbatim>\<open>contents\<close> (the image, then the prompt) and \<^verbatim>\<open>config.temperature\<close>.
\<close>

record Request =
  model :: string
  inlineData :: Blob
  promptText :: string
  configTemperature :: real

record ProcessedImage =
  base64 :: "string option"
  mimeType :: string

definition request :: "Browser \<Rightarrow> ProcessedImage \<Rightarrow> StyleStrength \<Rightarrow> Request" where
  "request env inputImage strength =
     \<lparr>model = ''gemini-2.5-flash-image'',
      inlineData = optimizeImage env (base64 inputImage) (ProcessedImage.mimeType inputImage),
      promptText = prompt strength,
      configTemperature = temperature strength\<rparr>"

subsection \<open>The response and the image taken from it\<close>

text \<open>
  The response as the code reads it: \<^verbatim>\<open>candidates\<close>, \<^verbatim>\<open>content\<close>, \<^verbatim>\<open>parts\<close>,
  \<^verbatim>\<open>inlineData\<close> and \<^verbatim>\<open>data\<close> are optional properties of the SDK's response types, so
  each may be undefined. A part's text is not read.
\<close>

record Part =
  partInlineData :: "Blob option"
  partText :: "string option"

record Content =
  parts :: "Part list option"

record Candidate =
  content :: "Content option"

record Response =
  candidates :: "Candidate list option"

text \<open>
  What a \<^verbatim>\<open>throw\<close> carries: the \<^verbatim>\<open>Error\<close> the client constructs, the engine's
  \<^verbatim>\<open>TypeError\<close> for reading a property of \<^verbatim>\<open>undefined\<close> (named by the property), or
  whatever the SDK call throws, of which only \<^verbatim>\<open>.message\<close> is ever read.
\<close>

datatype thrown = Error string | TypeError string | Thrown "string option"

definition noImageMessage :: string where
  "noImageMessage = ''No image generated by the model. It might have returned text instead.''"

fun message :: "thrown \<Rightarrow> string option" where
  "message (Error m) = Some m"
| "message (TypeError p) =
     Some (''Cannot read properties of undefined (reading '' @ [CHR 0x27] @ p @ [CHR 0x27] @ '')'')"
| "message (Thrown m) = m"

fun firstInlineData :: "Part list \<Rightarrow> string option" where
  \<comment> \<open>The \<^verbatim>\<open>for\<close> loop of lines 139 to 143: the first part whose inline data is truthy.\<close>
  "firstInlineData [] = None"
| "firstInlineData (part # rest) =
     (case partInlineData part of
        None \<Rightarrow> firstInlineData rest
      | Some blob \<Rightarrow>
          (case data blob of
             None \<Rightarrow> firstInlineData rest
           | Some d \<Rightarrow>
               if d = [] then firstInlineData rest
               else Some (''data:image/png;base64,'' @ d)))"

definition extractImage :: "Response \<Rightarrow> thrown + string" where
  "extractImage response =
     (case candidates response of
        None \<Rightarrow> Inl (Error noImageMessage)
      | Some [] \<Rightarrow> Inl (TypeError ''content'')
      | Some (c # _) \<Rightarrow>
          (case content c of
             None \<Rightarrow> Inl (TypeError ''parts'')
           | Some ct \<Rightarrow>
               (case parts ct of
                  None \<Rightarrow> Inl (Error noImageMessage)
                | Some ps \<Rightarrow>
                    (case firstInlineData ps of
                       Some url \<Rightarrow> Inr url
                     | None \<Rightarrow> Inl (Error noImageMessage)))))"

definition generateRickAndMortyStyle ::
  "Browser \<Rightarrow> (Request \<Rightarrow> thrown + Response) \<Rightarrow> ProcessedImage \<Rightarrow> StyleStrength \<Rightarrow> thrown + string"
where
  \<comment> \<open>\<open>remote\<close> is \<^verbatim>\<open>ai.models.generateContent\<close>; the \<^verbatim>\<open>catch\<close> rethrows what it caught.\<close>
  "generateRickAndMortyStyle env remote inputImage strength =
     (case remote (request env inputImage strength) of
        Inl err \<Rightarrow> Inl err
      | Inr response \<Rightarrow> extractImage response)"

section \<open>App.tsx\<close>

datatype AppState = IDLE | PROCESSING | COMPLETE | ERROR

record GenerationResult =
  original :: "ProcessedImage option"
  generated :: "string option"

text \<open>
  The component's state: the four \<^verbatim>\<open>useState\<close> cells and \<^verbatim>\<open>fileInputRef.current\<close>,
  which is \<^verbatim>\<open>null\<close> (\<open>None\<close>) or the input element, of which only \<^verbatim>\<open>value\<close> is used.
\<close>

record App =
  appState :: AppState
  result :: GenerationResult
  error :: "string option"
  styleStrength :: StyleStrength
  fileInputRef :: "string option"

definition initial :: App where
  "initial =
     \<lparr>appState = IDLE, result = \<lparr>original = None, generated = None\<rparr>, error = None,
      styleStrength = balanced, fileInputRef = None\<rparr>"

record File =
  type :: string

text \<open>
  What is in flight once a handler has returned: the \<^verbatim>\<open>FileReader\<close> reading the file,
  then the promise of \<^verbatim>\<open>generateRickAndMortyStyle\<close>. Both closures hold the
  \<^verbatim>\<open>styleStrength\<close> of the render whose handler started them.
\<close>

datatype task = Reading File StyleStrength | Generating ProcessedImage StyleStrength

definition validationMessage :: string where
  "validationMessage = ''Please upload a valid image file (PNG, JPG, etc.)''"

definition handleFileUpload :: "File option \<Rightarrow> bool \<Rightarrow> App \<Rightarrow> App \<times> task option" where
  \<comment> \<open>\<open>file\<close> is \<^verbatim>\<open>event.target.files?.[0]\<close>; \<open>readerThrows\<close> says whether creating or
      starting the reader throws, which the outer \<^verbatim>\<open>catch\<close> handles.\<close>
  "handleFileUpload file readerThrows s =
     (case file of
        None \<Rightarrow> (s, None)
      | Some f \<Rightarrow>
          if \<not> startsWith (type f) ''image/'' then (s\<lparr>error := Some validationMessage\<rparr>, None)
          else
            let s1 = s\<lparr>appState := PROCESSING, error := None\<rparr> in
            if readerThrows
            then (s1\<lparr>error := Some ''Error reading file'', appState := ERROR\<rparr>, None)
            else (s1, Some (Reading f (styleStrength s))))"

definition onloadend :: "File \<Rightarrow> StyleStrength \<Rightarrow> string option \<Rightarrow> App \<Rightarrow> App \<times> task option" where
  \<comment> \<open>\<open>readerResult\<close> is \<^verbatim>\<open>reader.result\<close>: \<^verbatim>\<open>null\<close> after a failed read, and then
      \<^verbatim>\<open>split\<close> throws inside the callback, whose rejection nothing handles.\<close>
  "onloadend f strength readerResult s =
     (case readerResult of
        None \<Rightarrow> (s, None)
      | Some base64String \<Rightarrow>
          let inputImage = \<lparr>base64 = at_index (js_split CHR '','' base64String) 1,
                            mimeType = type f\<rparr>
          in (s\<lparr>result := \<lparr>original = Some inputImage, generated = None\<rparr>\<rparr>,
              Some (Generating inputImage strength)))"

definition connectionFailedMessage :: string where
  "connectionFailedMessage =
     ''Connection failed. The image might be too complex or large for the portal gun. Try a different photo.''"

definition formatRejectedMessage :: string where
  "formatRejectedMessage =
     ''The image format wasn'' @ [CHR 0x27] @ ''t accepted by the Council of Ricks. Try a standard JPG or PNG.''"

definition fallbackMessage :: string where
  "fallbackMessage = ''Failed to generate image. Please try again.''"

definition errorMessage :: "string option \<Rightarrow> string" where
  \<comment> \<open>Lines 67 to 75; the argument is \<^verbatim>\<open>err.message\<close>, a string or undefined, so
      \<open>msg\<close> is a string and the \<^verbatim>\<open>typeof\<close> test holds.\<close>
  "errorMessage m =
     (let msg = (if truthy m then (case m of Some d \<Rightarrow> d | None \<Rightarrow> fallbackMessage)
                 else fallbackMessage)
      in if js_includes msg ''Rpc failed'' \<or> js_includes msg ''500'' \<or> js_includes msg ''xhr error''
         then connectionFailedMessage
         else if js_includes msg ''400'' then formatRejectedMessage
         else msg)"

definition settled :: "ProcessedImage \<Rightarrow> thrown + string \<Rightarrow> App \<Rightarrow> App" where
  \<comment> \<open>Lines 58 to 79: what runs when the awaited promise settles.\<close>
  "settled inputImage outcome s =
     (case outcome of
        Inr generatedImageUrl \<Rightarrow>
          s\<lparr>result := \<lparr>original = Some inputImage, generated = Some generatedImageUrl\<rparr>,
            appState := COMPLETE\<rparr>
      | Inl err \<Rightarrow> s\<lparr>error := Some (errorMessage (message err)), appState := ERROR\<rparr>)"

definition handleReset :: "App \<Rightarrow> App" where
  "handleReset s =
     s\<lparr>appState := IDLE, result := \<lparr>original = None, generated = None\<rparr>, error := None,
       fileInputRef := (case fileInputRef s of None \<Rightarrow> None | Some v \<Rightarrow> Some [])\<rparr>"

definition handleDownload :: "App \<Rightarrow> (string \<times> string) option" where
  \<comment> \<open>The link that is clicked, as \<^verbatim>\<open>(href, download)\<close>; the state is not touched.\<close>
  "handleDownload s =
     (case generated (result s) of
        None \<Rightarrow> None
      | Some url \<Rightarrow> if url = [] then None else Some (url, ''rick-and-morty-style.png''))"

subsection \<open>What the render offers, and runs of the component\<close>

definition uploadRendered :: "App \<Rightarrow> bool" where
  \<comment> \<open>The file input and the style selector: the \<^verbatim>\<open>IDLE\<close> block.\<close>
  "uploadRendered s = (appState s = IDLE)"

definition errorBannerRendered :: "App \<Rightarrow> bool" where
  \<comment> \<open>\<^verbatim>\<open>{error && ...}\<close>, with the button "Try Again".\<close>
  "errorBannerRendered s = truthy (error s)"

definition completeRendered :: "App \<Rightarrow> bool" where
  \<comment> \<open>The result view, with the buttons "New Portal" and "Download Art".\<close>
  "completeRendered s = (appState s = COMPLETE \<and> truthy (generated (result s)))"

definition resetOffered :: "App \<Rightarrow> bool" where
  "resetOffered s = (errorBannerRendered s \<or> completeRendered s)"

text \<open>
  An event is a user's action on a control that is rendered, the end of a read, the
  settling of a generation, or React or the browser changing what \<^verbatim>\<open>fileInputRef.current\<close>
  is (mounting and unmounting the input, the user's selection). \<open>step\<close> is \<open>None\<close> for
  an event that cannot happen in the state: a click on a control that is not rendered,
  the completion of a task that is not in flight.
\<close>

datatype event =
    Change "File option" bool
  | ClickStyle StyleStrength
  | ClickReset
  | ClickDownload
  | LoadEnd nat "string option"
  | Settle nat "thrown + string"
  | RefChange "string option"

definition started :: "task option \<Rightarrow> task list" where
  "started t = (case t of None \<Rightarrow> [] | Some x \<Rightarrow> [x])"

definition without :: "nat \<Rightarrow> task list \<Rightarrow> task list" where
  "without i ts = take i ts @ drop (Suc i) ts"

fun step :: "event \<Rightarrow> App \<times> task list \<Rightarrow> (App \<times> task list) option" where
  "step (Change file readerThrows) (s, ts) =
     (if uploadRendered s
      then (case handleFileUpload file readerThrows s of (s', t) \<Rightarrow> Some (s', ts @ started t))
      else None)"
| "step (ClickStyle strength) (s, ts) =
     (if uploadRendered s then Some (s\<lparr>styleStrength := strength\<rparr>, ts) else None)"
| "step ClickReset (s, ts) = (if resetOffered s then Some (handleReset s, ts) else None)"
| "step ClickDownload (s, ts) = (if completeRendered s then Some (s, ts) else None)"
| "step (LoadEnd i readerResult) (s, ts) =
     (case at_index ts i of
        Some (Reading f strength) \<Rightarrow>
          (case onloadend f strength readerResult s of
             (s', t) \<Rightarrow> Some (s', without i ts @ started t))
      | _ \<Rightarrow> None)"
| "step (Settle i outcome) (s, ts) =
     (case at_index ts i of
        Some (Generating inputImage strength) \<Rightarrow> Some (settled inputImage outcome s, without i ts)
      | _ \<Rightarrow> None)"
| "step (RefChange r) (s, ts) = Some (s\<lparr>fileInputRef := r\<rparr>, ts)"

fun run :: "event list \<Rightarrow> App \<times> task list \<Rightarrow> (App \<times> task list) option" where
  "run [] c = Some c"
| "run (e # es) c = (case step e c of None \<Rightarrow> None | Some c' \<Rightarrow> run es c')"

subsection \<open>An invariant of runs, and a browser to evaluate in\<close>

definition processingClean :: "App \<Rightarrow> bool" where
  \<comment> \<open>While the state is \<^verbatim>\<open>PROCESSING\<close> no error message is set.\<close>
  "processingClean s = (appState s = PROCESSING \<longrightarrow> error s = None)"

definition browserWith :: "load_event \<Rightarrow> bool \<Rightarrow> Browser" where
  \<comment> \<open>A browser that fires the given event for every image, has a 2D context or has
      none, and encodes every canvas to the same payload.\<close>
  "browserWith ev ctx =
     \<lparr>windowDefined = True, ImageDefined = True, load = (\<lambda>src. ev), getContext = (\<lambda>cv. ctx),
      toDataURL = (\<lambda>cv t q. ''data:'' @ t @ '';base64,/9j/4AAQ'')\<rparr>"

definition browserRefusing :: "load_event \<Rightarrow> nat \<Rightarrow> nat \<Rightarrow> Browser" where
  \<comment> \<open>As \<open>browserWith ev True\<close>, but a canvas of the given size gets no 2D context.\<close>
  "browserRefusing ev w h =
     (browserWith ev True)\<lparr>getContext := (\<lambda>cv. \<not> (width cv = w \<and> height cv = h))\<rparr>"

section \<open>Properties\<close>

subsection \<open>String search and rounding\<close>

text \<open>
  \<open>js_includes\<close> is the substring relation of the library (\<open>sublist\<close>: a contiguous
  piece), and \<open>Math_round\<close> of a quotient of naturals is an integer division.
\<close>

lemma startsWith_prefix: "startsWith s p = prefix p s"
  by (auto simp: startsWith_def prefix_def) (metis append_take_drop_id)

lemma js_includes_sublist: "js_includes s t = sublist t s"
proof (induction s)
  case Nil
  then show ?case by simp
next
  case (Cons c s)
  then show ?case by (simp add: startsWith_prefix sublist_Cons_right)
qed

lemma Math_round_div:
  assumes "0 < b"
  shows "Math_round (real a / real b) = int ((2 * a + b) div (2 * b))"
proof -
  have "real a / real b + 1 / 2 = real (2 * a + b) / real (2 * b)"
    using assms by (simp add: field_simps)
  then have "Math_round (real a / real b) = \<lfloor>real (2 * a + b) / real (2 * b)\<rfloor>"
    by (simp add: Math_round_def)
  also have "\<dots> = int ((2 * a + b) div (2 * b))"
    by (simp only: floor_divide_of_nat_eq)
  finally show ?thesis .
qed

lemma Math_round_near: "\<bar>real_of_int (Math_round x) - x\<bar> \<le> 1 / 2"
  unfolding Math_round_def by linarith

lemma Math_round_nonneg: "0 \<le> x \<Longrightarrow> 0 \<le> Math_round x"
  unfolding Math_round_def by simp

lemma Math_round_mono: "x \<le> y \<Longrightarrow> Math_round x \<le> Math_round y"
  unfolding Math_round_def by (simp add: floor_mono)

lemma Math_round_of_nat: "Math_round (real n) = int n"
  unfolding Math_round_def by linarith

text \<open>The scaled side of the shorter dimension: at most 1024, and within half a pixel.\<close>

lemma scaled_side:
  assumes "a \<le> b" "0 < b"
  shows "nat (Math_round (real (a * MAX_DIMENSION) / real b)) \<le> MAX_DIMENSION"
    and "\<bar>real (nat (Math_round (real (a * MAX_DIMENSION) / real b))) - real a * 1024 / real b\<bar> \<le> 1 / 2"
proof -
  let ?q = "real (a * MAX_DIMENSION) / real b"
  have q0: "0 \<le> ?q" by simp
  have "?q \<le> real MAX_DIMENSION"
    using assms by (simp add: field_simps MAX_DIMENSION_def)
  then have "Math_round ?q \<le> Math_round (real MAX_DIMENSION)"
    by (rule Math_round_mono)
  then have "Math_round ?q \<le> int MAX_DIMENSION"
    by (simp only: Math_round_of_nat)
  then show "nat (Math_round ?q) \<le> MAX_DIMENSION" by linarith
  have e1: "real (nat (Math_round ?q)) = real_of_int (Math_round ?q)"
    using Math_round_nonneg [OF q0] by simp
  have e2: "real a * 1024 / real b = ?q"
    by (simp add: MAX_DIMENSION_def)
  show "\<bar>real (nat (Math_round ?q)) - real a * 1024 / real b\<bar> \<le> 1 / 2"
    using Math_round_near [of ?q] by (simp only: e1 e2)
qed

lemma newDimensions_wide:
  assumes "h < w"
  shows "newDimensions w h = (1024, nat (Math_round (real h * 1024 / real w)))"
  using assms by (simp add: newDimensions_def MAX_DIMENSION_def)

lemma newDimensions_tall:
  assumes "w \<le> h"
  shows "newDimensions w h = (nat (Math_round (real w * 1024 / real h)), 1024)"
  using assms by (simp add: newDimensions_def MAX_DIMENSION_def)

lemma newDimensions_sides:
  assumes "w > MAX_DIMENSION \<or> h > MAX_DIMENSION"
  shows "max (fst (newDimensions w h)) (snd (newDimensions w h)) = 1024"
    and "min (fst (newDimensions w h)) (snd (newDimensions w h))
           = nat (Math_round (real (min w h) * 1024 / real (max w h)))"
    and "\<bar>real (min (fst (newDimensions w h)) (snd (newDimensions w h)))
            - real (min w h) * 1024 / real (max w h)\<bar> \<le> 1 / 2"
proof -
  have pos: "0 < max w h" using assms by (auto simp: MAX_DIMENSION_def)
  have le: "min w h \<le> max w h" by simp
  note s = scaled_side [OF le pos]
  have nd: "newDimensions w h =
      (if h < w then (1024, nat (Math_round (real (min w h * MAX_DIMENSION) / real (max w h))))
       else (nat (Math_round (real (min w h * MAX_DIMENSION) / real (max w h))), 1024))"
    by (simp add: newDimensions_def MAX_DIMENSION_def min_def max_def)
  show "max (fst (newDimensions w h)) (snd (newDimensions w h)) = 1024"
    using s(1) by (simp add: nd MAX_DIMENSION_def)
  have m: "min (fst (newDimensions w h)) (snd (newDimensions w h))
      = nat (Math_round (real (min w h * MAX_DIMENSION) / real (max w h)))"
    using s(1) by (simp add: nd MAX_DIMENSION_def)
  then show "min (fst (newDimensions w h)) (snd (newDimensions w h))
           = nat (Math_round (real (min w h) * 1024 / real (max w h)))"
    by (simp add: MAX_DIMENSION_def)
  show "\<bar>real (min (fst (newDimensions w h)) (snd (newDimensions w h)))
            - real (min w h) * 1024 / real (max w h)\<bar> \<le> 1 / 2"
    using s(2) by (simp only: m)
qed

subsection \<open>The optimizer\<close>

text \<open>
  Claim C2. When the image decodes (the browser fires \<^verbatim>\<open>onload\<close>) and its width and
  height are both at most 1024 pixels, the optimizer resolves with its input: the same
  base64 data and the same MIME type.
\<close>

theorem optimizeImage_small_unchanged:
  assumes "load env (''data:'' @ mime @ '';base64,'' @ template b64) = onload w h"
    and "w \<le> 1024" and "h \<le> 1024"
  shows "optimizeImage env b64 mime = \<lparr>data = b64, mimeType = mime\<rparr>"
  using assms by (simp add: optimizeImage_def MAX_DIMENSION_def Let_def)

theorem optimizeImage_small_unchanged_witness:
  "load (browserWith (onload 800 600) True) (''data:'' @ ''image/png'' @ '';base64,'' @ template (Some ''iVBORw0KGgo='')) = onload 800 600
   \<and> (800::nat) \<le> 1024 \<and> (600::nat) \<le> 1024
   \<and> optimizeImage (browserWith (onload 800 600) True) (Some ''iVBORw0KGgo='') ''image/png''
       = \<lparr>data = Some ''iVBORw0KGgo='', mimeType = ''image/png''\<rparr>"
proof -
  have l: "load (browserWith (onload 800 600) True) (''data:'' @ ''image/png'' @ '';base64,'' @ template (Some ''iVBORw0KGgo='')) = onload 800 600"
    by (simp add: browserWith_def)
  show ?thesis
    using optimizeImage_small_unchanged [OF l] l by simp
qed

text \<open>
  Claim C3, as amended. When the image decodes in a browser (window and Image are
  defined, \<^verbatim>\<open>onload\<close> fires) and a dimension exceeds 1024 pixels, the new dimensions
  keep the orientation: a width greater than the height becomes exactly 1024 and the
  height becomes \<open>height * 1024 / width\<close> rounded to the nearest integer; otherwise the
  height becomes exactly 1024 and the width \<open>width * 1024 / height\<close> rounded to the
  nearest integer. The rounded side is at most 1024 and at most half a pixel from the
  proportional value, so the longer side is exactly 1024. Where the canvas of these
  dimensions gives a 2D context, the optimizer resolves with the payload of
  \<^verbatim>\<open>canvas.toDataURL('image/jpeg', 0.85)\<close> of that canvas, on which the image was drawn
  at that size, and with the MIME type \<^verbatim>\<open>image/jpeg\<close>; where it gives none, with the
  input data and MIME type.
\<close>

theorem optimizeImage_large_reencoded:
  assumes "windowDefined env" and "ImageDefined env"
    and "load env (''data:'' @ mime @ '';base64,'' @ template b64) = onload w h"
    and "w > 1024 \<or> h > 1024"
  shows "optimizeImage env b64 mime =
           (if getContext env
                 \<lparr>width = fst (newDimensions w h), height = snd (newDimensions w h), drawn = None\<rparr>
            then
              \<lparr>data = at_index (js_split CHR '',''
                   (toDataURL env
                      \<lparr>width = fst (newDimensions w h), height = snd (newDimensions w h),
                       drawn = Some (''data:'' @ mime @ '';base64,'' @ template b64, 0, 0,
                                     fst (newDimensions w h), snd (newDimensions w h))\<rparr>
                      ''image/jpeg'' 0.85)) 1,
               mimeType = ''image/jpeg''\<rparr>
            else \<lparr>data = b64, mimeType = mime\<rparr>)
         \<and> newDimensions w h =
             (if w > h then (1024, nat (Math_round (real h * 1024 / real w)))
              else (nat (Math_round (real w * 1024 / real h)), 1024))
         \<and> (w > h \<longrightarrow> snd (newDimensions w h) \<le> 1024
               \<and> \<bar>real (snd (newDimensions w h)) - real h * 1024 / real w\<bar> \<le> 1 / 2)
         \<and> (w \<le> h \<longrightarrow> fst (newDimensions w h) \<le> 1024
               \<and> \<bar>real (fst (newDimensions w h)) - real w * 1024 / real h\<bar> \<le> 1 / 2)
         \<and> max (fst (newDimensions w h)) (snd (newDimensions w h)) = 1024
         \<and> min (fst (newDimensions w h)) (snd (newDimensions w h))
             = nat (Math_round (real (min w h) * 1024 / real (max w h)))
         \<and> \<bar>real (min (fst (newDimensions w h)) (snd (newDimensions w h)))
              - real (min w h) * 1024 / real (max w h)\<bar> \<le> 1 / 2"
proof -
  have big: "w > MAX_DIMENSION \<or> h > MAX_DIMENSION"
    using assms(4) by (simp add: MAX_DIMENSION_def)
  have res: "optimizeImage env b64 mime =
           (if getContext env
                 \<lparr>width = fst (newDimensions w h), height = snd (newDimensions w h), drawn = None\<rparr>
            then
              \<lparr>data = at_index (js_split CHR '',''
                   (toDataURL env
                      \<lparr>width = fst (newDimensions w h), height = snd (newDimensions w h),
                       drawn = Some (''data:'' @ mime @ '';base64,'' @ template b64, 0, 0,
                                     fst (newDimensions w h), snd (newDimensions w h))\<rparr>
                      ''image/jpeg'' 0.85)) 1,
               mimeType = ''image/jpeg''\<rparr>
            else \<lparr>data = b64, mimeType = mime\<rparr>)"
    using assms(1,2,3) big by (simp add: optimizeImage_def Let_def split_beta)
  have nd: "newDimensions w h =
             (if w > h then (1024, nat (Math_round (real h * 1024 / real w)))
              else (nat (Math_round (real w * 1024 / real h)), 1024))"
    by (simp add: newDimensions_def MAX_DIMENSION_def)
  have wide: "snd (newDimensions w h) \<le> 1024
               \<and> \<bar>real (snd (newDimensions w h)) - real h * 1024 / real w\<bar> \<le> 1 / 2"
    if "w > h"
  proof -
    have "h \<le> w" "0 < w" using that by simp_all
    from scaled_side [OF this] show ?thesis
      using that by (simp add: newDimensions_def MAX_DIMENSION_def)
  qed
  have tall: "fst (newDimensions w h) \<le> 1024
               \<and> \<bar>real (fst (newDimensions w h)) - real w * 1024 / real h\<bar> \<le> 1 / 2"
    if "w \<le> h"
  proof -
    have "0 < h" using that assms(4) by auto
    from scaled_side [OF that this] show ?thesis
      using that by (simp add: newDimensions_def MAX_DIMENSION_def)
  qed
  show ?thesis
    using res nd wide tall newDimensions_sides [OF big] by blast
qed

theorem optimizeImage_large_reencoded_witness:
  "optimizeImage (browserWith (onload 2000 1000) True) (Some ''iVBORw0KGgo='') ''image/png''
     = \<lparr>data = Some ''/9j/4AAQ'', mimeType = ''image/jpeg''\<rparr>
   \<and> newDimensions 2000 1000 = (1024, 512)
   \<and> optimizeImage (browserWith (onload 1000 2000) True) (Some ''iVBORw0KGgo='') ''image/png''
     = \<lparr>data = Some ''/9j/4AAQ'', mimeType = ''image/jpeg''\<rparr>
   \<and> newDimensions 1000 2000 = (512, 1024)
   \<and> optimizeImage (browserRefusing (onload 1000 2000) 512 1024) (Some ''iVBORw0KGgo='') ''image/png''
     = \<lparr>data = Some ''iVBORw0KGgo='', mimeType = ''image/png''\<rparr>"
proof -
  let ?src = "''data:'' @ ''image/png'' @ '';base64,'' @ template (Some ''iVBORw0KGgo='')"
  let ?a = "browserWith (onload 2000 1000) True"
  let ?b = "browserWith (onload 1000 2000) True"
  let ?c = "browserRefusing (onload 1000 2000) 512 1024"
  have r1: "Math_round (real 1000 * 1024 / real 2000) = 512"
    by (simp add: Math_round_def)
  have a: "windowDefined ?a" "ImageDefined ?a" "load ?a ?src = onload 2000 1000"
    "(2000::nat) > 1024 \<or> (1000::nat) > 1024"
    by (simp_all add: browserWith_def)
  have b: "windowDefined ?b" "ImageDefined ?b" "load ?b ?src = onload 1000 2000"
    "(1000::nat) > 1024 \<or> (2000::nat) > 1024"
    by (simp_all add: browserWith_def)
  have c: "windowDefined ?c" "ImageDefined ?c" "load ?c ?src = onload 1000 2000"
    by (simp_all add: browserRefusing_def browserWith_def)
  have A: "optimizeImage ?a (Some ''iVBORw0KGgo='') ''image/png''
             = \<lparr>data = Some ''/9j/4AAQ'', mimeType = ''image/jpeg''\<rparr>
           \<and> newDimensions 2000 1000 = (1024, 512)"
    using optimizeImage_large_reencoded [OF a] r1
    by (simp add: browserWith_def at_index_def)
  have B: "optimizeImage ?b (Some ''iVBORw0KGgo='') ''image/png''
             = \<lparr>data = Some ''/9j/4AAQ'', mimeType = ''image/jpeg''\<rparr>
           \<and> newDimensions 1000 2000 = (512, 1024)"
    using optimizeImage_large_reencoded [OF b] r1
    by (simp add: browserWith_def at_index_def)
  have C: "optimizeImage ?c (Some ''iVBORw0KGgo='') ''image/png''
             = \<lparr>data = Some ''iVBORw0KGgo='', mimeType = ''image/png''\<rparr>"
    using optimizeImage_large_reencoded [OF c b(4)] r1
    by (simp add: browserRefusing_def browserWith_def)
  show ?thesis using A B C by simp
qed

text \<open>
  Claim C3 as stated fails where \<^verbatim>\<open>getContext('2d')\<close> returns null: a 2000 by 1000 PNG
  decodes, is too large, and comes back unchanged with the MIME type \<^verbatim>\<open>image/png\<close>.
\<close>

theorem optimizeImage_large_without_context:
  "windowDefined (browserWith (onload 2000 1000) False)
   \<and> ImageDefined (browserWith (onload 2000 1000) False)
   \<and> load (browserWith (onload 2000 1000) False) (''data:'' @ ''image/png'' @ '';base64,'' @ template (Some ''iVBORw0KGgo='')) = onload 2000 1000
   \<and> (2000::nat) > 1024
   \<and> optimizeImage (browserWith (onload 2000 1000) False) (Some ''iVBORw0KGgo='') ''image/png''
       = \<lparr>data = Some ''iVBORw0KGgo='', mimeType = ''image/png''\<rparr>
   \<and> Blob.mimeType (optimizeImage (browserWith (onload 2000 1000) False) (Some ''iVBORw0KGgo='') ''image/png'')
       \<noteq> ''image/jpeg''"
  by (simp add: optimizeImage_def browserWith_def MAX_DIMENSION_def Let_def split_beta)

text \<open>
  Claim C4. The optimizer's promise is only ever resolved (its result is a \<open>Blob\<close>, never
  a thrown value), and for every input with the input itself or with a JPEG. Without
  window or Image, when the decode fails (\<^verbatim>\<open>onerror\<close>) or when the canvas the optimizer
  builds gives no 2D context, it resolves with the input data and MIME type, and the
  generation client then sends exactly the input image: what it returns or throws is what
  the remote call and the extraction of the image give for that request. Whatever the
  client throws, for any input, was thrown by the remote call or by the extraction.
\<close>

theorem optimizeImage_failure_absorbed:
  "(\<not> windowDefined env \<or> \<not> ImageDefined env
      \<or> load env (''data:'' @ mime @ '';base64,'' @ template b64) = onerror
      \<or> (\<exists>w h. load env (''data:'' @ mime @ '';base64,'' @ template b64) = onload w h
             \<and> \<not> getContext env
                   \<lparr>width = fst (newDimensions w h), height = snd (newDimensions w h),
                    drawn = None\<rparr>)
    \<longrightarrow> optimizeImage env b64 mime = \<lparr>data = b64, mimeType = mime\<rparr>
        \<and> generateRickAndMortyStyle env remote \<lparr>base64 = b64, mimeType = mime\<rparr> strength
            = (case remote \<lparr>model = ''gemini-2.5-flash-image'',
                             inlineData = \<lparr>data = b64, mimeType = mime\<rparr>,
                             promptText = prompt strength,
                             configTemperature = temperature strength\<rparr> of
                 Inl err \<Rightarrow> Inl err
               | Inr response \<Rightarrow> extractImage response))
   \<and> (optimizeImage env b64 mime = \<lparr>data = b64, mimeType = mime\<rparr>
        \<or> Blob.mimeType (optimizeImage env b64 mime) = ''image/jpeg'')
   \<and> (generateRickAndMortyStyle env remote \<lparr>base64 = b64, mimeType = mime\<rparr> strength = Inl err
        \<longrightarrow> remote (request env \<lparr>base64 = b64, mimeType = mime\<rparr> strength) = Inl err
            \<or> (\<exists>response.
                  remote (request env \<lparr>base64 = b64, mimeType = mime\<rparr> strength) = Inr response
                  \<and> extractImage response = Inl err))"
proof -
  have 1: "optimizeImage env b64 mime = \<lparr>data = b64, mimeType = mime\<rparr>"
    if "\<not> windowDefined env \<or> \<not> ImageDefined env
      \<or> load env (''data:'' @ mime @ '';base64,'' @ template b64) = onerror
      \<or> (\<exists>w h. load env (''data:'' @ mime @ '';base64,'' @ template b64) = onload w h
             \<and> \<not> getContext env
                   \<lparr>width = fst (newDimensions w h), height = snd (newDimensions w h),
                    drawn = None\<rparr>)"
    using that
    by (auto simp: optimizeImage_def Let_def split_beta split: load_event.splits)
  have 2: "optimizeImage env b64 mime = \<lparr>data = b64, mimeType = mime\<rparr>
        \<or> Blob.mimeType (optimizeImage env b64 mime) = ''image/jpeg''"
    by (simp add: optimizeImage_def Let_def split_beta split: load_event.splits)
  have 3: "remote (request env \<lparr>base64 = b64, mimeType = mime\<rparr> strength) = Inl err
            \<or> (\<exists>response.
                  remote (request env \<lparr>base64 = b64, mimeType = mime\<rparr> strength) = Inr response
                  \<and> extractImage response = Inl err)"
    if "generateRickAndMortyStyle env remote \<lparr>base64 = b64, mimeType = mime\<rparr> strength = Inl err"
    using that by (auto simp: generateRickAndMortyStyle_def split: sum.splits)
  have 4: "generateRickAndMortyStyle env remote \<lparr>base64 = b64, mimeType = mime\<rparr> strength
            = (case remote \<lparr>model = ''gemini-2.5-flash-image'',
                             inlineData = \<lparr>data = b64, mimeType = mime\<rparr>,
                             promptText = prompt strength,
                             configTemperature = temperature strength\<rparr> of
                 Inl err \<Rightarrow> Inl err
               | Inr response \<Rightarrow> extractImage response)"
    if "optimizeImage env b64 mime = \<lparr>data = b64, mimeType = mime\<rparr>"
    using that by (simp add: generateRickAndMortyStyle_def request_def)
  show ?thesis
    using 1 2 3 4 by blast
qed

theorem optimizeImage_failure_absorbed_witness:
  "load (browserWith onerror True) (''data:'' @ ''image/png'' @ '';base64,'' @ template (Some ''not-an-image'')) = onerror
   \<and> optimizeImage (browserWith onerror True) (Some ''not-an-image'') ''image/png''
       = \<lparr>data = Some ''not-an-image'', mimeType = ''image/png''\<rparr>
   \<and> generateRickAndMortyStyle (browserWith onerror True) (\<lambda>r. Inl (Thrown (Some ''500'')))
         \<lparr>base64 = Some ''not-an-image'', mimeType = ''image/png''\<rparr> balanced
       = Inl (Thrown (Some ''500''))
   \<and> load (browserRefusing (onload 2000 1000) 1024 512) (''data:'' @ ''image/png'' @ '';base64,'' @ template (Some ''iVBORw0KGgo='')) = onload 2000 1000
   \<and> getContext (browserRefusing (onload 2000 1000) 1024 512) \<lparr>width = 1024, height = 511, drawn = None\<rparr>
   \<and> \<not> getContext (browserRefusing (onload 2000 1000) 1024 512)
         \<lparr>width = fst (newDimensions 2000 1000), height = snd (newDimensions 2000 1000), drawn = None\<rparr>
   \<and> optimizeImage (browserRefusing (onload 2000 1000) 1024 512) (Some ''iVBORw0KGgo='') ''image/png''
       = \<lparr>data = Some ''iVBORw0KGgo='', mimeType = ''image/png''\<rparr>
   \<and> generateRickAndMortyStyle (browserRefusing (onload 2000 1000) 1024 512)
         (\<lambda>r. if inlineData r = \<lparr>data = Some ''iVBORw0KGgo='', mimeType = ''image/png''\<rparr>
               then Inr \<lparr>candidates = None\<rparr> else Inl (Thrown None))
         \<lparr>base64 = Some ''iVBORw0KGgo='', mimeType = ''image/png''\<rparr> strong
       = Inl (Error noImageMessage)"
proof -
  let ?e = "browserWith onerror True"
  let ?r = "browserRefusing (onload 2000 1000) 1024 512"
  let ?remote = "\<lambda>r. if inlineData r = \<lparr>data = Some ''iVBORw0KGgo='', mimeType = ''image/png''\<rparr>
               then Inr \<lparr>candidates = None\<rparr> else Inl (Thrown None)"
  have nd: "newDimensions 2000 1000 = (1024, 512)"
    by (simp add: newDimensions_def MAX_DIMENSION_def Math_round_def)
  have l: "load ?e (''data:'' @ ''image/png'' @ '';base64,'' @ template (Some ''not-an-image'')) = onerror"
    by (simp add: browserWith_def)
  have m: "load ?r (''data:'' @ ''image/png'' @ '';base64,'' @ template (Some ''iVBORw0KGgo='')) = onload 2000 1000"
    by (simp add: browserRefusing_def browserWith_def)
  have g: "getContext ?r \<lparr>width = 1024, height = 511, drawn = None\<rparr>"
    "\<not> getContext ?r \<lparr>width = fst (newDimensions 2000 1000), height = snd (newDimensions 2000 1000), drawn = None\<rparr>"
    by (simp_all add: browserRefusing_def nd)
  have E: "optimizeImage ?e (Some ''not-an-image'') ''image/png''
       = \<lparr>data = Some ''not-an-image'', mimeType = ''image/png''\<rparr>
     \<and> generateRickAndMortyStyle ?e (\<lambda>r. Inl (Thrown (Some ''500'')))
         \<lparr>base64 = Some ''not-an-image'', mimeType = ''image/png''\<rparr> balanced
       = Inl (Thrown (Some ''500''))"
    using optimizeImage_failure_absorbed
      [of ?e "''image/png''" "Some ''not-an-image''" "\<lambda>r. Inl (Thrown (Some ''500''))" balanced] l
    by simp
  have R: "optimizeImage ?r (Some ''iVBORw0KGgo='') ''image/png''
       = \<lparr>data = Some ''iVBORw0KGgo='', mimeType = ''image/png''\<rparr>
     \<and> generateRickAndMortyStyle ?r ?remote
         \<lparr>base64 = Some ''iVBORw0KGgo='', mimeType = ''image/png''\<rparr> strong
       = Inl (Error noImageMessage)"
    using optimizeImage_failure_absorbed
      [of ?r "''image/png''" "Some ''iVBORw0KGgo=''" ?remote strong] m g(2)
    by (simp add: extractImage_def)
  show ?thesis using l m g E R by simp
qed

subsection \<open>The prompt\<close>

text \<open>
  Claim C5. The prompt text and the temperature of the request are functions of the
  style strength alone: two requests built with \<^verbatim>\<open>'strong'\<close> (for any images, in any
  browsers) carry the same text and the temperature 0.75, two built with
  \<^verbatim>\<open>'balanced'\<close> the same text and 0.65.
\<close>

theorem prompt_depends_on_strength_only:
  "promptText (request env inputImage strength) = prompt strength
   \<and> configTemperature (request env inputImage strength) = temperature strength
   \<and> promptText (request env inputImage strong) = promptText (request env' inputImage' strong)
   \<and> configTemperature (request env inputImage strong) = 0.75
   \<and> promptText (request env inputImage balanced) = promptText (request env' inputImage' balanced)
   \<and> configTemperature (request env inputImage balanced) = 0.65"
  by (simp add: request_def temperature_def)

subsection \<open>The image of a response\<close>

text \<open>
  The scan of the parts returns nothing exactly when no part has truthy inline data, and
  otherwise the data of the first such part behind the PNG data-URL prefix.
\<close>

lemma firstInlineData_None:
  "firstInlineData ps = None \<longleftrightarrow>
     (\<forall>p \<in> set ps. \<forall>blob. partInlineData p = Some blob \<longrightarrow> \<not> truthy (data blob))"
  by (induction ps) (auto simp: truthy_def split: option.splits)

lemma firstInlineData_Some:
  "firstInlineData ps = Some url \<longleftrightarrow>
     (\<exists>before p after blob d. ps = before @ p # after
        \<and> firstInlineData before = None
        \<and> partInlineData p = Some blob \<and> data blob = Some d \<and> d \<noteq> []
        \<and> url = ''data:image/png;base64,'' @ d)"
proof (induction ps)
  case Nil
  then show ?case by simp
next
  case (Cons q qs)
  show ?case
  proof (cases "firstInlineData [q]")
    case None
    then have step: "firstInlineData (q # qs) = firstInlineData qs"
      by (auto split: option.splits if_splits)
    show ?thesis
    proof
      assume "firstInlineData (q # qs) = Some url"
      then have "firstInlineData qs = Some url" by (simp only: step)
      then obtain before p after blob d where
        "qs = before @ p # after" "firstInlineData before = None"
        "partInlineData p = Some blob" "data blob = Some d" "d \<noteq> []"
        "url = ''data:image/png;base64,'' @ d"
        using Cons.IH by blast
      moreover have "firstInlineData (q # before) = None"
        using None \<open>firstInlineData before = None\<close> by (auto split: option.splits if_splits)
      ultimately show "\<exists>before p after blob d. q # qs = before @ p # after
        \<and> firstInlineData before = None
        \<and> partInlineData p = Some blob \<and> data blob = Some d \<and> d \<noteq> []
        \<and> url = ''data:image/png;base64,'' @ d"
        by (metis append_Cons)
    next
      assume "\<exists>before p after blob d. q # qs = before @ p # after
        \<and> firstInlineData before = None
        \<and> partInlineData p = Some blob \<and> data blob = Some d \<and> d \<noteq> []
        \<and> url = ''data:image/png;base64,'' @ d"
      then obtain before p after blob d where *:
        "q # qs = before @ p # after" "firstInlineData before = None"
        "partInlineData p = Some blob" "data blob = Some d" "d \<noteq> []"
        "url = ''data:image/png;base64,'' @ d"
        by blast
      have "before \<noteq> []"
        using * None by (cases before) auto
      then obtain b' where b: "before = q # b'"
        using *(1) by (cases before) auto
      then have "qs = b' @ p # after" using *(1) by simp
      moreover have "firstInlineData b' = None"
        using *(2) b None by (auto split: option.splits if_splits)
      ultimately have "firstInlineData qs = Some url"
        using Cons.IH * by blast
      then show "firstInlineData (q # qs) = Some url" by (simp only: step)
    qed
  next
    case (Some u)
    then obtain blob d where q: "partInlineData q = Some blob" "data blob = Some d" "d \<noteq> []"
      "u = ''data:image/png;base64,'' @ d"
      by (auto split: option.splits if_splits)
    then have v: "firstInlineData (q # qs) = Some (''data:image/png;base64,'' @ d)"
      by simp
    show ?thesis
    proof
      assume "firstInlineData (q # qs) = Some url"
      then have "url = ''data:image/png;base64,'' @ d" using v by simp
      then have "q # qs = [] @ q # qs \<and> firstInlineData [] = None
        \<and> partInlineData q = Some blob \<and> data blob = Some d \<and> d \<noteq> []
        \<and> url = ''data:image/png;base64,'' @ d"
        using q by simp
      then show "\<exists>before p after blob d. q # qs = before @ p # after
        \<and> firstInlineData before = None
        \<and> partInlineData p = Some blob \<and> data blob = Some d \<and> d \<noteq> []
        \<and> url = ''data:image/png;base64,'' @ d"
        by blast
    next
      assume "\<exists>before p after blob d. q # qs = before @ p # after
        \<and> firstInlineData before = None
        \<and> partInlineData p = Some blob \<and> data blob = Some d \<and> d \<noteq> []
        \<and> url = ''data:image/png;base64,'' @ d"
      then obtain before p after blob' d' where *:
        "q # qs = before @ p # after" "firstInlineData before = None"
        "partInlineData p = Some blob'" "data blob' = Some d'" "d' \<noteq> []"
        "url = ''data:image/png;base64,'' @ d'"
        by blast
      have "before = []"
      proof (rule ccontr)
        assume "before \<noteq> []"
        then obtain b' where "before = q # b'" using *(1) by (cases before) auto
        then have "firstInlineData before = Some (''data:image/png;base64,'' @ d)"
          using q by simp
        then show False using *(2) by simp
      qed
      then have "p = q" using *(1) by simp
      then show "firstInlineData (q # qs) = Some url"
        using * q v by simp
    qed
  qed
qed

text \<open>
  Claim C6. A response whose \<^verbatim>\<open>candidates\<close> array is empty, or whose first candidate has
  no \<^verbatim>\<open>content\<close>, holds no part with inline image data; the client does not raise its
  "no image" error on it, but the engine's \<^verbatim>\<open>TypeError\<close> for reading a property of
  \<^verbatim>\<open>undefined\<close>.
\<close>

theorem extractImage_empty_candidates:
  "extractImage \<lparr>candidates = Some []\<rparr> = Inl (TypeError ''content'')
   \<and> extractImage \<lparr>candidates = Some [\<lparr>content = None\<rparr>]\<rparr> = Inl (TypeError ''parts'')
   \<and> TypeError ''content'' \<noteq> Error noImageMessage
   \<and> generateRickAndMortyStyle env (\<lambda>r. Inr \<lparr>candidates = Some []\<rparr>) inputImage strength
       = Inl (TypeError ''content'')"
  by (simp add: extractImage_def generateRickAndMortyStyle_def)

text \<open>
  On a response whose first candidate has content with parts, the result is the scan's.
\<close>

lemma extractImage_parts:
  "extractImage \<lparr>candidates = Some (\<lparr>content = Some \<lparr>parts = Some ps\<rparr>\<rparr> # cs)\<rparr> =
     (case firstInlineData ps of Some url \<Rightarrow> Inr url | None \<Rightarrow> Inl (Error noImageMessage))"
  by (simp add: extractImage_def)

subsection \<open>The message of a failure\<close>

lemma fallbackMessage_unclassified:
  "\<not> js_includes fallbackMessage ''Rpc failed''" "\<not> js_includes fallbackMessage ''500''"
  "\<not> js_includes fallbackMessage ''xhr error''" "\<not> js_includes fallbackMessage ''400''"
  by (simp_all add: fallbackMessage_def startsWith_def)

lemma errorMessage_absent:
  "errorMessage None = fallbackMessage" "errorMessage (Some []) = fallbackMessage"
  by (simp_all add: errorMessage_def truthy_def fallbackMessage_unclassified)

text \<open>
  Claim C7. The message shown for a failure is a function of the failure's description:
  one that contains "Rpc failed", "500" or "xhr error" gives the connection-failed
  message; otherwise one that contains "400" gives the format-rejected message; otherwise
  the description itself. Where there is no description (it is undefined, or the empty
  string, which JavaScript treats alike) the fallback message is shown. Containment is
  that of contiguous characters, compared exactly.
\<close>

theorem errorMessage_classification:
  "errorMessage None = fallbackMessage
   \<and> errorMessage (Some []) = fallbackMessage
   \<and> (d \<noteq> [] \<longrightarrow>
        errorMessage (Some d) =
          (if sublist ''Rpc failed'' d \<or> sublist ''500'' d \<or> sublist ''xhr error'' d
           then connectionFailedMessage
           else if sublist ''400'' d then formatRejectedMessage
           else d))"
proof -
  have "d \<noteq> [] \<longrightarrow>
        errorMessage (Some d) =
          (if sublist ''Rpc failed'' d \<or> sublist ''500'' d \<or> sublist ''xhr error'' d
           then connectionFailedMessage
           else if sublist ''400'' d then formatRejectedMessage
           else d)"
    by (simp add: errorMessage_def truthy_def js_includes_sublist)
  then show ?thesis
    using errorMessage_absent by simp
qed

theorem errorMessage_classification_witness:
  "''HTTP 500 after 400'' \<noteq> []
   \<and> errorMessage (Some ''HTTP 500 after 400'') = connectionFailedMessage
   \<and> errorMessage (Some ''got status 400'') = formatRejectedMessage
   \<and> errorMessage (Some ''RPC FAILED'') = ''RPC FAILED''"
proof -
  have s1: "sublist ''500'' ''HTTP 500 after 400''"
    unfolding js_includes_sublist [symmetric] by (simp add: startsWith_def)
  have s2: "\<not> sublist ''Rpc failed'' ''got status 400''" "\<not> sublist ''500'' ''got status 400''"
    "\<not> sublist ''xhr error'' ''got status 400''" "sublist ''400'' ''got status 400''"
    unfolding js_includes_sublist [symmetric] by (simp_all add: startsWith_def)
  have s3: "\<not> sublist ''Rpc failed'' ''RPC FAILED''" "\<not> sublist ''500'' ''RPC FAILED''"
    "\<not> sublist ''xhr error'' ''RPC FAILED''" "\<not> sublist ''400'' ''RPC FAILED''"
    unfolding js_includes_sublist [symmetric] by (simp_all add: startsWith_def)
  show ?thesis
    using errorMessage_classification [of "''HTTP 500 after 400''"]
      errorMessage_classification [of "''got status 400''"]
      errorMessage_classification [of "''RPC FAILED''"]
    by (simp add: s1 s2 s3)
qed

subsection \<open>The handlers\<close>

text \<open>
  Claim C8. Selecting a file whose type does not start with \<^verbatim>\<open>image/\<close> sets the
  validation message and changes nothing else: the application state (so \<^verbatim>\<open>IDLE\<close> stays
  \<^verbatim>\<open>IDLE\<close>), the result (original and generated image), the style strength and the
  file input are as before, and nothing is started.
\<close>

theorem handleFileUpload_non_image:
  assumes "\<not> startsWith (type f) ''image/''"
  shows "handleFileUpload (Some f) readerThrows s = (s\<lparr>error := Some validationMessage\<rparr>, None)
         \<and> appState (fst (handleFileUpload (Some f) readerThrows s)) = appState s
         \<and> result (fst (handleFileUpload (Some f) readerThrows s)) = result s
         \<and> error (fst (handleFileUpload (Some f) readerThrows s)) = Some validationMessage"
  using assms by (simp add: handleFileUpload_def)

theorem handleFileUpload_non_image_witness:
  "\<not> startsWith (type \<lparr>type = ''application/pdf''\<rparr>) ''image/''
   \<and> handleFileUpload (Some \<lparr>type = ''application/pdf''\<rparr>) False initial
       = (\<lparr>appState = IDLE, result = \<lparr>original = None, generated = None\<rparr>,
           error = Some validationMessage, styleStrength = balanced, fileInputRef = None\<rparr>, None)"
proof -
  have h: "\<not> startsWith (type \<lparr>type = ''application/pdf''\<rparr>) ''image/''"
    by (simp add: startsWith_def)
  show ?thesis
    using handleFileUpload_non_image [OF h, of False initial] h
    by (simp add: initial_def)
qed

text \<open>
  Claim C9. From every state the reset action gives the clean \<^verbatim>\<open>IDLE\<close> state: no
  original, no generated image, no error message, and the value of the file input, where
  one is attached, empty. A second reset changes nothing.
\<close>

theorem handleReset_clean_idempotent:
  "handleReset s =
     \<lparr>appState = IDLE, result = \<lparr>original = None, generated = None\<rparr>, error = None,
      styleStrength = styleStrength s,
      fileInputRef = map_option (\<lambda>v. []) (fileInputRef s)\<rparr>
   \<and> handleReset (handleReset s) = handleReset s"
  by (cases s) (simp add: handleReset_def split: option.splits)

text \<open>
  Claim C10. A selection event with no file leaves the state as it is (application
  state, result and error message included) and starts nothing.
\<close>

theorem handleFileUpload_no_file:
  "handleFileUpload None readerThrows s = (s, None)
   \<and> step (Change None readerThrows) (s, ts) = (if uploadRendered s then Some (s, ts) else None)"
  by (simp add: handleFileUpload_def started_def)

subsection \<open>Reset and a generation in flight\<close>

text \<open>
  Every handler keeps \<open>processingClean\<close>, given that a file can be selected only where
  the input is rendered; so it holds in every state a run reaches.
\<close>

lemma processingClean_initial: "processingClean initial"
  by (simp add: processingClean_def initial_def)

lemma processingClean_handleFileUpload:
  assumes "uploadRendered s" and "handleFileUpload file readerThrows s = (s', t)"
  shows "processingClean s'"
  using assms
  by (auto simp: handleFileUpload_def uploadRendered_def processingClean_def Let_def
      split: option.splits if_splits)

lemma processingClean_onloadend:
  assumes "processingClean s" and "onloadend f strength readerResult s = (s', t)"
  shows "processingClean s'"
  using assms
  by (auto simp: onloadend_def processingClean_def Let_def split: option.splits)

lemma processingClean_settled: "processingClean (settled inputImage outcome s)"
  by (simp add: settled_def processingClean_def split: sum.splits)

lemma processingClean_handleReset: "processingClean (handleReset s)"
  by (simp add: handleReset_def processingClean_def)

lemma processingClean_step:
  assumes "processingClean s" and "step e (s, ts) = Some (s', ts')"
  shows "processingClean s'"
proof (cases e)
  case (Change chosen readerThrows)
  then show ?thesis
    using assms(2) processingClean_handleFileUpload
    by (auto split: if_splits prod.splits)
next
  case (ClickStyle strength)
  then show ?thesis
    using assms by (auto simp: processingClean_def split: if_splits)
next
  case ClickReset
  then show ?thesis
    using assms(2) processingClean_handleReset by (auto split: if_splits)
next
  case ClickDownload
  then show ?thesis
    using assms by (auto split: if_splits)
next
  case (LoadEnd i readerResult)
  then show ?thesis
    using assms processingClean_onloadend
    by (auto split: option.splits task.splits prod.splits)
next
  case (Settle i outcome)
  then show ?thesis
    using assms(2) processingClean_settled
    by (auto split: option.splits task.splits)
next
  case (RefChange r)
  then show ?thesis
    using assms by (auto simp: processingClean_def)
qed

lemma processingClean_run:
  assumes "processingClean (fst c)" and "run es c = Some c'"
  shows "processingClean (fst c')"
  using assms
proof (induction es arbitrary: c)
  case Nil
  then show ?case by simp
next
  case (Cons e es)
  from Cons.prems(2) obtain c1 where c1: "step e c = Some c1" and r: "run es c1 = Some c'"
    by (auto split: option.splits)
  have "processingClean (fst c1)"
    using processingClean_step [of "fst c" e "snd c" "fst c1" "snd c1"] Cons.prems(1) c1
    by simp
  then show ?case using Cons.IH r by blast
qed

lemma reset_not_offered_when_clean:
  assumes "processingClean s" and "appState s = PROCESSING"
  shows "\<not> resetOffered s"
  using assms
  by (simp add: processingClean_def resetOffered_def errorBannerRendered_def
      completeRendered_def truthy_def)

text \<open>
  In every state a run reaches, while the state is \<^verbatim>\<open>PROCESSING\<close> the error message is
  null and no control that resets is rendered, so the click cannot happen: no run holds a
  reset between the selection of an image and the settling of its generation.
\<close>

lemma reset_not_offered_while_processing:
  assumes "run es (initial, []) = Some (s', ts)" and "appState s' = PROCESSING"
  shows "error s' = None" and "\<not> resetOffered s'" and "step ClickReset (s', ts) = None"
proof -
  have c: "processingClean s'"
    using processingClean_run [of "(initial, [])" es "(s', ts)"] assms(1) processingClean_initial
    by simp
  then show "error s' = None"
    using assms(2) by (simp add: processingClean_def)
  show "\<not> resetOffered s'"
    using reset_not_offered_when_clean [OF c assms(2)] .
  then show "step ClickReset (s', ts) = None"
    by simp
qed

text \<open>
  Such a state is reached: after an image is selected and read, the state is
  \<^verbatim>\<open>PROCESSING\<close> with the generation in flight, and a click on a reset control is no
  step.
\<close>

lemma reset_refused_after_upload:
  "run [Change (Some \<lparr>type = ''image/png''\<rparr>) False,
        LoadEnd 0 (Some ''data:image/png;base64,iVBORw0KGgo='')] (initial, [])
     = Some (\<lparr>appState = PROCESSING,
               result = \<lparr>original = Some \<lparr>base64 = Some ''iVBORw0KGgo='', mimeType = ''image/png''\<rparr>,
                         generated = None\<rparr>,
               error = None, styleStrength = balanced, fileInputRef = None\<rparr>,
             [Generating \<lparr>base64 = Some ''iVBORw0KGgo='', mimeType = ''image/png''\<rparr> balanced])
   \<and> run [Change (Some \<lparr>type = ''image/png''\<rparr>) False,
          LoadEnd 0 (Some ''data:image/png;base64,iVBORw0KGgo=''),
          ClickReset] (initial, []) = None"
  by (simp add: initial_def uploadRendered_def handleFileUpload_def startsWith_def Let_def
      started_def at_index_def onloadend_def without_def resetOffered_def
      errorBannerRendered_def completeRendered_def truthy_def)

text \<open>
  The callback that runs when a generation settles writes the state without reading it.
\<close>

lemma settled_writes_appState:
  "appState (settled inputImage (Inr url) s) = COMPLETE"
  "result (settled inputImage (Inr url) s) = \<lparr>original = Some inputImage, generated = Some url\<rparr>"
  "appState (settled inputImage (Inl err) s) = ERROR"
  "error (settled inputImage (Inl err) s) = Some (errorMessage (message err))"
  by (simp_all add: settled_def)

end
